theory Spec2Isabelle
  imports Complex_Main
begin

section \<open>Numbers and vectors\<close>

text \<open>
  The density code of SMASH computes with C++ \<open>double\<close> values. They are modelled as
  real numbers: every value is finite and arithmetic is exact. The theorems below are
  therefore statements about the formulas the code evaluates, not about rounding,
  overflow or NaN propagation.
\<close>

text \<open>
  Modelled from the spec: the class ThreeVector is not part of the sources at hand. It is a
  triple of doubles, default-constructed to zero, with component-wise sum and difference,
  scaling by a double, the Euclidean scalar product (operator * between two vectors),
  \<open>sqr\<close> (the scalar product with itself) and indexing by 0, 1, 2.
\<close>

record ThreeVector =
  x1 :: real
  x2 :: real
  x3 :: real

definition ThreeVector0 :: ThreeVector where
  "ThreeVector0 = \<lparr>x1 = 0, x2 = 0, x3 = 0\<rparr>"

definition tv_add :: "ThreeVector \<Rightarrow> ThreeVector \<Rightarrow> ThreeVector" where
  "tv_add a b = \<lparr>x1 = x1 a + x1 b, x2 = x2 a + x2 b, x3 = x3 a + x3 b\<rparr>"

definition tv_sub :: "ThreeVector \<Rightarrow> ThreeVector \<Rightarrow> ThreeVector" where
  "tv_sub a b = \<lparr>x1 = x1 a - x1 b, x2 = x2 a - x2 b, x3 = x3 a - x3 b\<rparr>"

definition tv_scale :: "ThreeVector \<Rightarrow> real \<Rightarrow> ThreeVector" where
  "tv_scale a s = \<lparr>x1 = x1 a * s, x2 = x2 a * s, x3 = x3 a * s\<rparr>"

definition tv_dot :: "ThreeVector \<Rightarrow> ThreeVector \<Rightarrow> real" where
  "tv_dot a b = x1 a * x1 b + x2 a * x2 b + x3 a * x3 b"

definition tv_sqr :: "ThreeVector \<Rightarrow> real" where
  "tv_sqr a = tv_dot a a"

definition tv_nth :: "ThreeVector \<Rightarrow> nat \<Rightarrow> real" where
  "tv_nth a i = (if i = 0 then x1 a else if i = 1 then x2 a else x3 a)"

definition tv_set_nth :: "ThreeVector \<Rightarrow> nat \<Rightarrow> real \<Rightarrow> ThreeVector" where
  "tv_set_nth a i v =
     (if i = 0 then a\<lparr>x1 := v\<rparr> else if i = 1 then a\<lparr>x2 := v\<rparr> else a\<lparr>x3 := v\<rparr>)"

text \<open>
  Modelled from the spec: the class FourVector is not part of the sources at hand. It is a
  time component \<open>x0\<close> and a spatial ThreeVector \<open>threevec\<close>, default-constructed to
  zero, with component-wise sum, difference, scaling and division by a double.
\<close>

record FourVector =
  x0 :: real
  threevec :: ThreeVector

definition FourVector0 :: FourVector where
  "FourVector0 = \<lparr>x0 = 0, threevec = ThreeVector0\<rparr>"

definition fv_add :: "FourVector \<Rightarrow> FourVector \<Rightarrow> FourVector" where
  "fv_add a b = \<lparr>x0 = x0 a + x0 b, threevec = tv_add (threevec a) (threevec b)\<rparr>"

definition fv_sub :: "FourVector \<Rightarrow> FourVector \<Rightarrow> FourVector" where
  "fv_sub a b = \<lparr>x0 = x0 a - x0 b, threevec = tv_sub (threevec a) (threevec b)\<rparr>"

definition fv_scale :: "FourVector \<Rightarrow> real \<Rightarrow> FourVector" where
  "fv_scale a s = \<lparr>x0 = x0 a * s, threevec = tv_scale (threevec a) s\<rparr>"

definition fv_div :: "FourVector \<Rightarrow> real \<Rightarrow> FourVector" where
  "fv_div a s = fv_scale a (1 / s)"

text \<open>
  Modelled from the spec: the methods \<open>sqr\<close> and \<open>abs\<close> of FourVector, the Minkowski
  square \<open>x0\<^sup>2 - threevec\<^sup>2\<close> and the invariant norm, its square root. The norm
  of a space-like vector does not exist; the theorems below use the norm of the zero
  vector, of time-like vectors and the fact that it is a function of the square.
\<close>

definition fv_sqr :: "FourVector \<Rightarrow> real" where
  "fv_sqr a = x0 a * x0 a - tv_sqr (threevec a)"

definition fv_abs :: "FourVector \<Rightarrow> real" where
  "fv_abs a = sqrt (fv_sqr a)"

section \<open>Particles and density parameters\<close>

text \<open>
  Modelled from the spec: the classes ParticleType and PdgCode are not part of the sources
  at hand. A species is the record of the accessors the density code reads: the hadron,
  baryon, nucleus and pion classification (\<open>is_pion\<close> stands for \<open>pdgcode().is_pion()\<close>),
  the integer baryon number, charge and strangeness, and the isospin-3 components. No
  relation between the accessors is assumed.
\<close>

record ParticleType =
  is_hadron :: bool
  is_baryon :: bool
  is_nucleus :: bool
  is_pion :: bool
  baryon_number :: int
  charge :: int
  strangeness :: int
  isospin3 :: real
  isospin3_rel :: real

record ParticleData =
  ptype :: ParticleType
  momentum :: FourVector
  position :: FourVector

text \<open>
  The enumeration DensityType; its last member is written \<open>None'\<close> here, the name
  \<open>None\<close> being taken by the option type.
\<close>

datatype DensityType =
  Hadron | Baryon | BaryonicIsospin | Pion | Isospin3_tot | Charge | Strangeness | None'

text \<open>
  Modelled from the spec: the derivative mode of the density parameters is either the
  analytic kernel gradient or the finite difference in time; the density code names only
  the latter.
\<close>

datatype DerivativesMode = CovariantGaussian | FiniteDifference

text \<open>
  Modelled from the spec: the class DensityParameters is not part of the sources at hand.
  It holds the squared cutoff radius, the precomputed \<open>1 / (2 \<sigma>\<^sup>2)\<close>, the
  normalisation factor and the derivative mode.
\<close>

record DensityParameters =
  r_cut_sqr :: real
  two_sig_sqr_inv :: real
  norm_factor_sf :: real
  derivatives :: DerivativesMode

section \<open>The density-type selector\<close>

fun density_factor :: "ParticleType \<Rightarrow> DensityType \<Rightarrow> real" where
  "density_factor type Hadron = (if is_hadron type then 1 else 0)"
| "density_factor type Baryon = real_of_int (baryon_number type)"
| "density_factor type BaryonicIsospin =
     (if is_baryon type \<or> is_nucleus type then isospin3_rel type else 0)"
| "density_factor type Pion = (if is_pion type then 1 else 0)"
| "density_factor type Isospin3_tot = (if is_hadron type then isospin3 type else 0)"
| "density_factor type Charge = real_of_int (charge type)"
| "density_factor type Strangeness = real_of_int (strangeness type)"
| "density_factor type None' = 0"

section \<open>The geometric kernel\<close>

definition unnormalized_smearing_factor ::
  "ThreeVector \<Rightarrow> FourVector \<Rightarrow> real \<Rightarrow> DensityParameters \<Rightarrow> bool \<Rightarrow> real \<times> ThreeVector"
where
  "unnormalized_smearing_factor r p m_inv dens_par compute_gradient =
     (let r_sqr = tv_sqr r in
      if r_sqr > r_cut_sqr dens_par then (0, ThreeVector0)
      else
        let u = fv_scale p m_inv;
            u_r_scalar = tv_dot r (threevec u);
            r_rest_sqr = r_sqr + u_r_scalar * u_r_scalar in
        if r_rest_sqr > r_cut_sqr dens_par then (0, ThreeVector0)
        else
          let sf = exp (- r_rest_sqr * two_sig_sqr_inv dens_par) * x0 u;
              sf_grad =
                (if compute_gradient
                 then tv_scale
                        (tv_scale
                           (tv_scale (tv_add r (tv_scale (threevec u) u_r_scalar)) sf)
                           (two_sig_sqr_inv dens_par))
                        2
                 else ThreeVector0)
          in (sf, sf_grad))"

section \<open>The Eckart current at a point\<close>

text \<open>
  The running sums of \<open>current_eckart_impl\<close>: the currents of the positively and of the
  negatively weighted particles, and the array of the four derivative four-vectors.
\<close>

record accumulator =
  jmu_pos :: FourVector
  jmu_neg :: FourVector
  djmu_dx :: "FourVector list"

definition accumulator0 :: accumulator where
  "accumulator0 =
     \<lparr>jmu_pos = FourVector0, jmu_neg = FourVector0,
      djmu_dx = [FourVector0, FourVector0, FourVector0, FourVector0]\<rparr>"

text \<open>The body of the inner loop over the spatial index \<open>k = 1, 2, 3\<close>.\<close>

definition gradient_step ::
  "FourVector \<Rightarrow> ThreeVector \<Rightarrow> real \<Rightarrow> FourVector list \<Rightarrow> nat \<Rightarrow> FourVector list"
where
  "gradient_step tmp sf_grad dens_factor d k =
     (let d1 = d[k := fv_add (d ! k) (fv_scale tmp (tv_nth sf_grad (k - 1)))]
      in d1[0 := fv_sub (d1 ! 0)
                   (fv_div (fv_scale (fv_scale tmp (tv_nth sf_grad (k - 1)))
                                     (tv_nth (threevec tmp) (k - 1)))
                           dens_factor)])"

text \<open>
  One iteration of the loop over the particles. The constant \<open>really_small\<close> of
  constants.h is not part of the sources at hand and is a parameter. Beside the updated
  sums the iteration returns the divisors of the divisions it has executed, in order: the
  mass in \<open>1.0 / m\<close>, the energy in \<open>dens_factor / mom.x0()\<close> and, for each of the three
  passes of the inner loop, the weight in \<open>... / dens_factor\<close>.
\<close>

definition eckart_particle ::
  "real \<Rightarrow> ThreeVector \<Rightarrow> DensityParameters \<Rightarrow> DensityType \<Rightarrow> bool \<Rightarrow> bool \<Rightarrow>
     accumulator \<Rightarrow> ParticleData \<Rightarrow> accumulator \<times> real list"
where
  "eckart_particle really_small r par dens_type compute_gradient smearing acc p =
     (let dens_factor = density_factor (ptype p) dens_type in
      if \<bar>dens_factor\<bar> < really_small then (acc, [])
      else
        let mom = momentum p;
            m = fv_abs mom in
        if m < really_small then (acc, [])
        else
          let m_inv = 1 / m;
              sf_and_grad =
                unnormalized_smearing_factor (tv_sub (threevec (position p)) r) mom m_inv
                  par compute_gradient;
              tmp = fv_scale mom (dens_factor / x0 mom);
              acc1 =
                (if smearing
                 then (if dens_factor > 0
                       then acc\<lparr>jmu_pos := fv_add (jmu_pos acc) (fv_scale tmp (fst sf_and_grad))\<rparr>
                       else acc\<lparr>jmu_neg := fv_add (jmu_neg acc) (fv_scale tmp (fst sf_and_grad))\<rparr>)
                 else (if dens_factor > 0
                       then acc\<lparr>jmu_pos := fv_add (jmu_pos acc) tmp\<rparr>
                       else acc\<lparr>jmu_neg := fv_add (jmu_neg acc) tmp\<rparr>))
          in if compute_gradient
             then (acc1\<lparr>djmu_dx :=
                          foldl (gradient_step tmp (snd sf_and_grad) dens_factor)
                            (djmu_dx acc1) [1, 2, 3]\<rparr>,
                   [m, x0 mom, dens_factor, dens_factor, dens_factor])
             else (acc1, [m, x0 mom]))"

definition eckart_loop ::
  "real \<Rightarrow> ThreeVector \<Rightarrow> DensityParameters \<Rightarrow> DensityType \<Rightarrow> bool \<Rightarrow> bool \<Rightarrow>
     accumulator \<Rightarrow> ParticleData list \<Rightarrow> accumulator"
where
  "eckart_loop really_small r par dens_type compute_gradient smearing acc plist =
     foldl (\<lambda>a p. fst (eckart_particle really_small r par dens_type compute_gradient
                           smearing a p))
       acc plist"

definition current_eckart_impl ::
  "real \<Rightarrow> ThreeVector \<Rightarrow> ParticleData list \<Rightarrow> DensityParameters \<Rightarrow> DensityType \<Rightarrow>
     bool \<Rightarrow> bool \<Rightarrow> real \<times> FourVector \<times> ThreeVector \<times> ThreeVector \<times> ThreeVector"
where
  "current_eckart_impl really_small r plist par dens_type compute_gradient smearing =
     (let acc = eckart_loop really_small r par dens_type compute_gradient smearing
                  accumulator0 plist;
          d = djmu_dx acc;
          rho_eck = (fv_abs (jmu_pos acc) - fv_abs (jmu_neg acc)) * norm_factor_sf par;
          dj_dt = (if compute_gradient
                   then tv_scale (threevec (d ! 0)) (norm_factor_sf par)
                   else ThreeVector0);
          j_rot = (if compute_gradient
                   then tv_scale
                          \<lparr>x1 = x3 (threevec (d ! 2)) - x2 (threevec (d ! 3)),
                           x2 = x1 (threevec (d ! 3)) - x3 (threevec (d ! 1)),
                           x3 = x2 (threevec (d ! 1)) - x1 (threevec (d ! 2))\<rparr>
                          (norm_factor_sf par)
                   else ThreeVector0);
          rho_grad = (if compute_gradient
                      then foldl (\<lambda>g i. tv_set_nth g (i - 1)
                                           (tv_nth g (i - 1) + x0 (d ! i) * norm_factor_sf par))
                             ThreeVector0 [1, 2, 3]
                      else ThreeVector0)
      in (rho_eck, fv_scale (fv_add (jmu_pos acc) (jmu_neg acc)) (norm_factor_sf par),
          rho_grad, dj_dt, j_rot))"

text \<open>The two overloads for a ParticleList and for Particles forward to the template.\<close>

definition current_eckart ::
  "real \<Rightarrow> ThreeVector \<Rightarrow> ParticleData list \<Rightarrow> DensityParameters \<Rightarrow> DensityType \<Rightarrow>
     bool \<Rightarrow> bool \<Rightarrow> real \<times> FourVector \<times> ThreeVector \<times> ThreeVector \<times> ThreeVector"
where
  "current_eckart really_small r plist par dens_type compute_gradient smearing =
     current_eckart_impl really_small r plist par dens_type compute_gradient smearing"

section \<open>Updating a lattice\<close>

text \<open>
  Modelled from the spec: the classes RectangularLattice and DensityOnLattice are not part
  of the sources at hand. A lattice carries its update-trigger tag, its three cell counts
  and its nodes by array position; the type of the tag (LatticeUpdate) is a parameter. A
  node stores a net four-current and the four derivative four-vectors.
\<close>

record ('u, 'a) RectangularLattice =
  when_update :: 'u
  n_cells :: "int \<times> int \<times> int"
  nodes :: "'a list"

record DensityOnLattice =
  jmu_net :: FourVector
  djmu_dxnu :: "FourVector list"

text \<open>
  The four pointer arguments of \<open>update_lattice\<close>; a null pointer is \<open>Option.None\<close>.
  Dereferencing a null pointer and indexing a lattice out of range are faults.
\<close>

record 'u lattices =
  lat :: "('u, DensityOnLattice) RectangularLattice option"
  old_jmu :: "('u, FourVector) RectangularLattice option"
  new_jmu :: "('u, FourVector) RectangularLattice option"
  four_grad_lattice :: "('u, FourVector list) RectangularLattice option"

datatype fault = NullPointer | OutOfRange

definition node_at :: "('u, 'a) RectangularLattice \<Rightarrow> nat \<Rightarrow> fault + 'a" where
  "node_at l i = (if i < length (nodes l) then Inr (nodes l ! i) else Inl OutOfRange)"

definition assign_value ::
  "('u, 'a) RectangularLattice \<Rightarrow> nat \<Rightarrow> 'a \<Rightarrow> fault + ('u, 'a) RectangularLattice"
where
  "assign_value l i v =
     (if i < length (nodes l) then Inr (l\<lparr>nodes := (nodes l)[i := v]\<rparr>) else Inl OutOfRange)"

text \<open>The loop \<open>aux->assign_value(i, ((*lat)[i]).jmu_net())\<close> over the node numbers.\<close>

fun copy_jmu ::
  "('u, DensityOnLattice) RectangularLattice \<Rightarrow> ('u, FourVector) RectangularLattice \<Rightarrow>
     nat list \<Rightarrow> fault + ('u, FourVector) RectangularLattice"
where
  "copy_jmu l aux [] = Inr aux"
| "copy_jmu l aux (i # rest) =
     (case node_at l i of
        Inl e \<Rightarrow> Inl e
      | Inr node \<Rightarrow>
          (case assign_value aux i (jmu_net node) of
             Inl e \<Rightarrow> Inl e
           | Inr aux' \<Rightarrow> copy_jmu l aux' rest))"

definition snapshot ::
  "('u, DensityOnLattice) RectangularLattice \<Rightarrow> ('u, FourVector) RectangularLattice option \<Rightarrow>
     nat list \<Rightarrow> fault + ('u, FourVector) RectangularLattice option"
where
  "snapshot l aux idx =
     (if idx = [] then Inr aux
      else case aux of
             Option.None \<Rightarrow> Inl NullPointer
           | Some a \<Rightarrow> (case copy_jmu l a idx of Inl e \<Rightarrow> Inl e | Inr a' \<Rightarrow> Inr (Some a')))"

text \<open>The loop over the nodes that substitutes the new derivatives.\<close>

fun overwrite_nodes ::
  "('u, FourVector list) RectangularLattice \<Rightarrow> nat \<Rightarrow> DensityOnLattice list \<Rightarrow>
     fault + DensityOnLattice list"
where
  "overwrite_nodes g node_number [] = Inr []"
| "overwrite_nodes g node_number (node # rest) =
     (case node_at g node_number of
        Inl e \<Rightarrow> Inl e
      | Inr tmp \<Rightarrow>
          (case overwrite_nodes g (node_number + 1) rest of
             Inl e \<Rightarrow> Inl e
           | Inr rest' \<Rightarrow>
               Inr (node\<lparr>djmu_dxnu := [tmp ! 0, tmp ! 1, tmp ! 2, tmp ! 3]\<rparr> # rest')))"

text \<open>
  The ten-argument \<open>update_lattice\<close>. The six-argument overload it calls and the method
  \<open>compute_four_gradient_lattice\<close> of the lattice are not part of the sources at hand and
  are parameters. The three auxiliary lattices are taken to be distinct objects.
\<close>

definition update_lattice ::
  "(('u, DensityOnLattice) RectangularLattice \<Rightarrow> 'u \<Rightarrow> DensityType \<Rightarrow> DensityParameters \<Rightarrow>
      'e \<Rightarrow> bool \<Rightarrow> ('u, DensityOnLattice) RectangularLattice) \<Rightarrow>
   (('u, FourVector) RectangularLattice \<Rightarrow> ('u, FourVector) RectangularLattice \<Rightarrow> real \<Rightarrow>
      ('u, FourVector list) RectangularLattice \<Rightarrow> ('u, FourVector list) RectangularLattice) \<Rightarrow>
   'u lattices \<Rightarrow> 'u \<Rightarrow> DensityType \<Rightarrow> DensityParameters \<Rightarrow> 'e \<Rightarrow> real \<Rightarrow> bool \<Rightarrow>
   fault + 'u lattices"
where
  "update_lattice update_lattice6 compute_four_gradient_lattice s update dens_type par
     ensembles time_step compute_gradient =
     (case lat s of
        Option.None \<Rightarrow> Inr s
      | Some l \<Rightarrow>
          if when_update l \<noteq> update then Inr s
          else
            let number_of_nodes = fst (n_cells l) * fst (snd (n_cells l)) * snd (snd (n_cells l));
                idx = [0 ..< nat number_of_nodes]
            in
            if derivatives par = FiniteDifference
            then
              (case snapshot l (old_jmu s) idx of
                 Inl e \<Rightarrow> Inl e
               | Inr old' \<Rightarrow>
                   let l1 = update_lattice6 l update dens_type par ensembles compute_gradient in
                   (case snapshot l1 (new_jmu s) idx of
                      Inl e \<Rightarrow> Inl e
                    | Inr new' \<Rightarrow>
                        (case (old', new', four_grad_lattice s) of
                           (Some old, Some new, Some g) \<Rightarrow>
                             let g' = compute_four_gradient_lattice new old time_step g in
                             (case overwrite_nodes g' 0 (nodes l1) of
                                Inl e \<Rightarrow> Inl e
                              | Inr nodes' \<Rightarrow>
                                  Inr \<lparr>lat = Some (l1\<lparr>nodes := nodes'\<rparr>), old_jmu = Some old,
                                       new_jmu = Some new, four_grad_lattice = Some g'\<rparr>)
                         | _ \<Rightarrow> Inl NullPointer)))
            else
              Inr (s\<lparr>lat :=
                       Some (update_lattice6 l update dens_type par ensembles
                               compute_gradient)\<rparr>))"

section \<open>Printing a density type\<close>

text \<open>
  An output stream is the text written so far and its failbit. Inserting text into a stream
  whose failbit is set writes nothing.
\<close>

record ostream =
  written :: string
  failbit :: bool

definition insert_text :: "ostream \<Rightarrow> string \<Rightarrow> ostream" where
  "insert_text os s = (if failbit os then os else os\<lparr>written := written os @ s\<rparr>)"

definition setstate_failbit :: "ostream \<Rightarrow> ostream" where
  "setstate_failbit os = os\<lparr>failbit := True\<rparr>"

text \<open>The output operator \<open>operator<<(std::ostream &, DensityType)\<close>.\<close>

fun operator_out :: "ostream \<Rightarrow> DensityType \<Rightarrow> ostream" where
  "operator_out os Hadron = insert_text os ''hadron density''"
| "operator_out os Baryon = insert_text os ''baryon density''"
| "operator_out os BaryonicIsospin = insert_text os ''baryonic isospin density''"
| "operator_out os Pion = insert_text os ''pion density''"
| "operator_out os Isospin3_tot = insert_text os ''total isospin3 density''"
| "operator_out os None' = insert_text os ''none''"
| "operator_out os _ = setstate_failbit os"

section \<open>The sums as the specification words them\<close>

text \<open>
  A particle forms a contribution when the loop does not skip it: its weight is not below
  \<open>really_small\<close> in magnitude and its invariant mass is not below \<open>really_small\<close>.
\<close>

definition counted :: "real \<Rightarrow> DensityType \<Rightarrow> ParticleData \<Rightarrow> bool" where
  "counted really_small dens_type p =
     (\<not> \<bar>density_factor (ptype p) dens_type\<bar> < really_small \<and>
      \<not> fv_abs (momentum p) < really_small)"

text \<open>
  The contribution of a particle: \<open>tmp = momentum * (weight / energy)\<close>, multiplied by the
  kernel weight when smearing is requested.
\<close>

definition contribution ::
  "ThreeVector \<Rightarrow> DensityParameters \<Rightarrow> DensityType \<Rightarrow> bool \<Rightarrow> bool \<Rightarrow> ParticleData \<Rightarrow>
     FourVector"
where
  "contribution r par dens_type compute_gradient smearing p =
     (let tmp = fv_scale (momentum p) (density_factor (ptype p) dens_type / x0 (momentum p))
      in if smearing
         then fv_scale tmp
                (fst (unnormalized_smearing_factor (tv_sub (threevec (position p)) r)
                        (momentum p) (1 / fv_abs (momentum p)) par compute_gradient))
         else tmp)"

definition fv_sum :: "FourVector list \<Rightarrow> FourVector" where
  "fv_sum vs = foldl fv_add FourVector0 vs"

text \<open>The positive sum: the contributions of the particles of positive weight.\<close>

definition jmu_pos_spec ::
  "real \<Rightarrow> ThreeVector \<Rightarrow> ParticleData list \<Rightarrow> DensityParameters \<Rightarrow> DensityType \<Rightarrow>
     bool \<Rightarrow> bool \<Rightarrow> FourVector"
where
  "jmu_pos_spec really_small r plist par dens_type compute_gradient smearing =
     fv_sum (map (contribution r par dens_type compute_gradient smearing)
               (filter (\<lambda>p. counted really_small dens_type p \<and>
                             density_factor (ptype p) dens_type > 0) plist))"

text \<open>The negative sum: the contributions of all other particles.\<close>

definition jmu_neg_spec ::
  "real \<Rightarrow> ThreeVector \<Rightarrow> ParticleData list \<Rightarrow> DensityParameters \<Rightarrow> DensityType \<Rightarrow>
     bool \<Rightarrow> bool \<Rightarrow> FourVector"
where
  "jmu_neg_spec really_small r plist par dens_type compute_gradient smearing =
     fv_sum (map (contribution r par dens_type compute_gradient smearing)
               (filter (\<lambda>p. counted really_small dens_type p \<and>
                             \<not> density_factor (ptype p) dens_type > 0) plist))"

section \<open>Physical momenta, divisors and mirrored pairs\<close>

text \<open>A physical four-momentum is time-like with positive energy.\<close>

definition physical :: "FourVector \<Rightarrow> bool" where
  "physical mom = (0 < x0 mom \<and> 0 < fv_sqr mom)"

text \<open>
  The divisors of all divisions the loop over the particles executes, in order, with the
  sums threaded through the iterations as the loop does.
\<close>

fun loop_divisors ::
  "real \<Rightarrow> ThreeVector \<Rightarrow> DensityParameters \<Rightarrow> DensityType \<Rightarrow> bool \<Rightarrow> bool \<Rightarrow>
     accumulator \<Rightarrow> ParticleData list \<Rightarrow> real list"
where
  "loop_divisors really_small r par dens_type compute_gradient smearing acc [] = []"
| "loop_divisors really_small r par dens_type compute_gradient smearing acc (p # plist) =
     snd (eckart_particle really_small r par dens_type compute_gradient smearing acc p) @
     loop_divisors really_small r par dens_type compute_gradient smearing
       (fst (eckart_particle really_small r par dens_type compute_gradient smearing acc p))
       plist"

text \<open>The spatial reflection of a four-vector: same energy, opposite three-momentum.\<close>

definition parity :: "FourVector \<Rightarrow> FourVector" where
  "parity a = \<lparr>x0 = x0 a, threevec = tv_scale (threevec a) (- 1)\<rparr>"

section \<open>Sample values\<close>

definition type_plus :: ParticleType where
  "type_plus =
     \<lparr>is_hadron = True, is_baryon = True, is_nucleus = False, is_pion = False,
      baryon_number = 1, charge = 1, strangeness = 0, isospin3 = 1, isospin3_rel = 1\<rparr>"

definition type_minus :: ParticleType where
  "type_minus =
     \<lparr>is_hadron = True, is_baryon = True, is_nucleus = False, is_pion = False,
      baryon_number = - 1, charge = - 1, strangeness = 0, isospin3 = - 1, isospin3_rel = - 1\<rparr>"

definition type_pi0 :: ParticleType where
  "type_pi0 =
     \<lparr>is_hadron = True, is_baryon = False, is_nucleus = False, is_pion = True,
      baryon_number = 0, charge = 0, strangeness = 0, isospin3 = 0, isospin3_rel = 0\<rparr>"

text \<open>
  Two opposite charges flying back to back along the first axis, at mirrored positions
  about the origin; each has energy 5, momentum 3 and hence mass 4.
\<close>

definition p_right :: ParticleData where
  "p_right =
     \<lparr>ptype = type_plus,
      momentum = \<lparr>x0 = 5, threevec = \<lparr>x1 = 3, x2 = 0, x3 = 0\<rparr>\<rparr>,
      position = \<lparr>x0 = 0, threevec = \<lparr>x1 = 1, x2 = 0, x3 = 0\<rparr>\<rparr>\<rparr>"

definition p_left :: ParticleData where
  "p_left =
     \<lparr>ptype = type_minus,
      momentum = \<lparr>x0 = 5, threevec = \<lparr>x1 = - 3, x2 = 0, x3 = 0\<rparr>\<rparr>,
      position = \<lparr>x0 = 0, threevec = \<lparr>x1 = - 1, x2 = 0, x3 = 0\<rparr>\<rparr>\<rparr>"

definition p_rest :: ParticleData where
  "p_rest =
     \<lparr>ptype = type_plus,
      momentum = \<lparr>x0 = 1, threevec = \<lparr>x1 = 0, x2 = 0, x3 = 0\<rparr>\<rparr>,
      position = \<lparr>x0 = 0, threevec = \<lparr>x1 = 0, x2 = 0, x3 = 0\<rparr>\<rparr>\<rparr>"

definition par_unit :: DensityParameters where
  "par_unit =
     \<lparr>r_cut_sqr = 16, two_sig_sqr_inv = 1 / 2, norm_factor_sf = 1,
      derivatives = CovariantGaussian\<rparr>"

definition par_wide :: DensityParameters where
  "par_wide =
     \<lparr>r_cut_sqr = 100, two_sig_sqr_inv = 1 / 8, norm_factor_sf = 1,
      derivatives = FiniteDifference\<rparr>"

definition par_boundary :: DensityParameters where
  "par_boundary =
     \<lparr>r_cut_sqr = 1, two_sig_sqr_inv = 1 / 2, norm_factor_sf = 1,
      derivatives = CovariantGaussian\<rparr>"

section \<open>Auxiliary facts\<close>

lemma sqrt_16: "sqrt 16 = 4"
  using real_sqrt_abs [of 4] by simp

lemma fv_abs_0: "fv_abs FourVector0 = 0"
  by (simp add: fv_abs_def fv_sqr_def FourVector0_def ThreeVector0_def tv_sqr_def tv_dot_def)

lemma fv_add_0: "fv_add FourVector0 v = v"
  by (simp add: fv_add_def FourVector0_def ThreeVector0_def tv_add_def)

lemma fv_scale_scale: "fv_scale (fv_scale a c) s = fv_scale a (c * s)"
  by (simp add: fv_scale_def tv_scale_def mult.assoc)

lemma eckart_loop_Nil: "eckart_loop e r par dt cg sm acc [] = acc"
  by (simp add: eckart_loop_def)

lemma jmu_pos_particle:
  "jmu_pos (fst (eckart_particle e r par dt cg sm acc p)) =
     (if counted e dt p \<and> density_factor (ptype p) dt > 0
      then fv_add (jmu_pos acc) (contribution r par dt cg sm p) else jmu_pos acc)"
  by (simp add: eckart_particle_def counted_def contribution_def Let_def)

lemma jmu_neg_particle:
  "jmu_neg (fst (eckart_particle e r par dt cg sm acc p)) =
     (if counted e dt p \<and> \<not> density_factor (ptype p) dt > 0
      then fv_add (jmu_neg acc) (contribution r par dt cg sm p) else jmu_neg acc)"
  by (simp add: eckart_particle_def counted_def contribution_def Let_def)

lemma jmu_pos_loop:
  "jmu_pos (eckart_loop e r par dt cg sm acc plist) =
     foldl fv_add (jmu_pos acc)
       (map (contribution r par dt cg sm)
          (filter (\<lambda>p. counted e dt p \<and> density_factor (ptype p) dt > 0) plist))"
  unfolding eckart_loop_def
  by (induction plist arbitrary: acc) (simp_all add: jmu_pos_particle)

lemma jmu_neg_loop:
  "jmu_neg (eckart_loop e r par dt cg sm acc plist) =
     foldl fv_add (jmu_neg acc)
       (map (contribution r par dt cg sm)
          (filter (\<lambda>p. counted e dt p \<and> \<not> density_factor (ptype p) dt > 0) plist))"
  unfolding eckart_loop_def
  by (induction plist arbitrary: acc) (simp_all add: jmu_neg_particle)

section \<open>The accumulation and the Eckart density\<close>

text \<open>
  C1: In \<open>current_eckart\<close> every contribution \<open>tmp = momentum * (weight / energy)\<close> of a
  particle the loop does not skip, multiplied by the kernel weight when smearing is
  requested and taken as it is otherwise, is added to the positive sum when the weight of
  the particle is positive and to the negative sum otherwise. The returned Eckart density
  is the invariant norm of the positive sum minus that of the negative sum, times the
  normalisation factor, and the returned four-current is the sum of both, times the
  normalisation factor, for every particle list, point, density type and flags.
\<close>

theorem current_eckart_sums:
  "fst (current_eckart e r plist par dt cg sm) =
     (fv_abs (jmu_pos_spec e r plist par dt cg sm) -
      fv_abs (jmu_neg_spec e r plist par dt cg sm)) * norm_factor_sf par \<and>
   fst (snd (current_eckart e r plist par dt cg sm)) =
     fv_scale (fv_add (jmu_pos_spec e r plist par dt cg sm)
                      (jmu_neg_spec e r plist par dt cg sm))
       (norm_factor_sf par)"
  by (simp add: current_eckart_def current_eckart_impl_def Let_def jmu_pos_loop jmu_neg_loop
      jmu_pos_spec_def jmu_neg_spec_def fv_sum_def accumulator0_def)

section \<open>The geometric kernel\<close>

text \<open>
  C2: For valid density parameters, with \<open>two_sig_sqr_inv = 1 / (2 \<sigma>\<^sup>2)\<close>, the kernel
  returns weight 0 and the zero gradient whenever \<open>r \<cdot> r\<close> exceeds the squared cutoff and
  whenever the rest-frame distance \<open>r \<cdot> r + (r \<cdot> u)\<^sup>2\<close> exceeds it, where \<open>u\<close> is the
  spatial part of \<open>p * m_inv\<close>. Otherwise the weight is
  \<open>exp (- r_rest\<^sup>2 / (2 \<sigma>\<^sup>2)) * u_t\<close> and the gradient is
  \<open>weight * (r + u * u_r) / \<sigma>\<^sup>2\<close> when requested and zero when not.
\<close>

theorem unnormalized_smearing_factor_spec:
  assumes "0 < sigma"
    and "two_sig_sqr_inv par = 1 / (2 * sigma\<^sup>2)"
  shows "(tv_sqr r > r_cut_sqr par \<longrightarrow>
            unnormalized_smearing_factor r p m_inv par cg = (0, ThreeVector0)) \<and>
         (tv_sqr r + (tv_dot r (tv_scale (threevec p) m_inv))\<^sup>2 > r_cut_sqr par \<longrightarrow>
            unnormalized_smearing_factor r p m_inv par cg = (0, ThreeVector0)) \<and>
         (\<not> tv_sqr r > r_cut_sqr par \<and>
          \<not> tv_sqr r + (tv_dot r (tv_scale (threevec p) m_inv))\<^sup>2 > r_cut_sqr par \<longrightarrow>
            fst (unnormalized_smearing_factor r p m_inv par cg) =
              exp (- (tv_sqr r + (tv_dot r (tv_scale (threevec p) m_inv))\<^sup>2) / (2 * sigma\<^sup>2))
                * (x0 p * m_inv) \<and>
            snd (unnormalized_smearing_factor r p m_inv par cg) =
              (if cg
               then tv_scale
                      (tv_add r (tv_scale (tv_scale (threevec p) m_inv)
                                   (tv_dot r (tv_scale (threevec p) m_inv))))
                      (fst (unnormalized_smearing_factor r p m_inv par cg) / sigma\<^sup>2)
               else ThreeVector0))"
  using assms
  by (simp add: unnormalized_smearing_factor_def Let_def fv_scale_def power2_eq_square
      tv_scale_def tv_add_def)

theorem unnormalized_smearing_factor_spec_witness:
  "(0::real) < 1 \<and> two_sig_sqr_inv par_unit = 1 / (2 * 1\<^sup>2) \<and>
   tv_sqr \<lparr>x1 = 5, x2 = 0, x3 = 0\<rparr> > r_cut_sqr par_unit \<and>
   unnormalized_smearing_factor \<lparr>x1 = 5, x2 = 0, x3 = 0\<rparr> (momentum p_right) (1 / 4)
     par_unit True = (0, ThreeVector0) \<and>
   \<not> tv_sqr \<lparr>x1 = 3, x2 = 0, x3 = 0\<rparr> > r_cut_sqr par_unit \<and>
   tv_sqr \<lparr>x1 = 3, x2 = 0, x3 = 0\<rparr> +
     (tv_dot \<lparr>x1 = 3, x2 = 0, x3 = 0\<rparr> (tv_scale (threevec (momentum p_right)) 1))\<^sup>2
       > r_cut_sqr par_unit \<and>
   unnormalized_smearing_factor \<lparr>x1 = 3, x2 = 0, x3 = 0\<rparr> (momentum p_right) 1
     par_unit True = (0, ThreeVector0) \<and>
   fst (unnormalized_smearing_factor \<lparr>x1 = 0, x2 = 2, x3 = 0\<rparr> (momentum p_right) (1 / 4)
          par_unit True) = exp (- 2) * (5 / 4) \<and>
   snd (unnormalized_smearing_factor \<lparr>x1 = 0, x2 = 2, x3 = 0\<rparr> (momentum p_right) (1 / 4)
          par_unit True) = \<lparr>x1 = 0, x2 = 2 * (exp (- 2) * (5 / 4)), x3 = 0\<rparr>"
proof -
  have s: "(0::real) < 1" by simp
  have t: "two_sig_sqr_inv par_unit = 1 / (2 * 1\<^sup>2)" by (simp add: par_unit_def)
  show ?thesis
    using unnormalized_smearing_factor_spec [OF s t, of "\<lparr>x1 = 5, x2 = 0, x3 = 0\<rparr>"
        "momentum p_right" "1 / 4" True]
      unnormalized_smearing_factor_spec [OF s t, of "\<lparr>x1 = 3, x2 = 0, x3 = 0\<rparr>"
        "momentum p_right" 1 True]
      unnormalized_smearing_factor_spec [OF s t, of "\<lparr>x1 = 0, x2 = 2, x3 = 0\<rparr>"
        "momentum p_right" "1 / 4" True]
    by (simp add: par_unit_def p_right_def tv_sqr_def tv_dot_def tv_scale_def tv_add_def)
qed

text \<open>
  At the boundary the kernel does not exclude the particle: for a particle at
  rest at distance 1 from the point, with squared cutoff 1, the lab-frame and the
  rest-frame squared distances both equal the squared cutoff and the result is not the
  pair of zero weight and zero gradient.
\<close>

theorem unnormalized_smearing_factor_boundary_counterexample:
  "tv_sqr \<lparr>x1 = 1, x2 = 0, x3 = 0\<rparr> = r_cut_sqr par_boundary \<and>
   tv_sqr \<lparr>x1 = 1, x2 = 0, x3 = 0\<rparr> +
     (tv_dot \<lparr>x1 = 1, x2 = 0, x3 = 0\<rparr> (tv_scale (threevec (momentum p_rest)) 1))\<^sup>2
       = r_cut_sqr par_boundary \<and>
   unnormalized_smearing_factor \<lparr>x1 = 1, x2 = 0, x3 = 0\<rparr> (momentum p_rest) 1 par_boundary
     False \<noteq> (0, ThreeVector0)"
  by (simp add: unnormalized_smearing_factor_def Let_def fv_scale_def tv_sqr_def tv_dot_def
      tv_scale_def par_boundary_def p_rest_def)

text \<open>
  C5: A particle exactly at the cutoff boundary is included by the kernel: when the
  rest-frame squared distance \<open>r \<cdot> r + (r \<cdot> u)\<^sup>2\<close> equals the squared cutoff, the weight
  is \<open>exp (- r_cut\<^sup>2 * two_sig_sqr_inv) * u_t\<close>, which is not zero unless \<open>u_t\<close> is. A
  particle whose lab-frame squared distance equals the squared cutoff is excluded only
  when \<open>r \<cdot> u\<close> is not zero, its rest-frame distance then being strictly beyond the cutoff.
\<close>

theorem unnormalized_smearing_factor_boundary:
  "(tv_sqr r + (tv_dot r (tv_scale (threevec p) m_inv))\<^sup>2 = r_cut_sqr par \<longrightarrow>
      fst (unnormalized_smearing_factor r p m_inv par cg) =
        exp (- r_cut_sqr par * two_sig_sqr_inv par) * (x0 p * m_inv) \<and>
      (x0 p * m_inv \<noteq> 0 \<longrightarrow> fst (unnormalized_smearing_factor r p m_inv par cg) \<noteq> 0)) \<and>
   (tv_sqr r = r_cut_sqr par \<and> tv_dot r (tv_scale (threevec p) m_inv) \<noteq> 0 \<longrightarrow>
      unnormalized_smearing_factor r p m_inv par cg = (0, ThreeVector0))"
proof (intro conjI impI)
  assume eq: "tv_sqr r + (tv_dot r (tv_scale (threevec p) m_inv))\<^sup>2 = r_cut_sqr par"
  have "tv_sqr r \<le> r_cut_sqr par"
    using eq zero_le_power2 [of "tv_dot r (tv_scale (threevec p) m_inv)"] by linarith
  then show w: "fst (unnormalized_smearing_factor r p m_inv par cg) =
      exp (- r_cut_sqr par * two_sig_sqr_inv par) * (x0 p * m_inv)"
    using eq
    by (simp add: unnormalized_smearing_factor_def Let_def fv_scale_def power2_eq_square)
  assume "x0 p * m_inv \<noteq> 0"
  then show "fst (unnormalized_smearing_factor r p m_inv par cg) \<noteq> 0"
    using w by simp
next
  assume b: "tv_sqr r = r_cut_sqr par \<and> tv_dot r (tv_scale (threevec p) m_inv) \<noteq> 0"
  then have "0 < (tv_dot r (tv_scale (threevec p) m_inv))\<^sup>2"
    by simp
  then show "unnormalized_smearing_factor r p m_inv par cg = (0, ThreeVector0)"
    using b
    by (simp add: unnormalized_smearing_factor_def Let_def fv_scale_def power2_eq_square)
qed

theorem unnormalized_smearing_factor_boundary_witness:
  "tv_sqr \<lparr>x1 = 1, x2 = 0, x3 = 0\<rparr> +
     (tv_dot \<lparr>x1 = 1, x2 = 0, x3 = 0\<rparr> (tv_scale (threevec (momentum p_rest)) 1))\<^sup>2
       = r_cut_sqr par_boundary \<and>
   x0 (momentum p_rest) * 1 \<noteq> 0 \<and>
   fst (unnormalized_smearing_factor \<lparr>x1 = 1, x2 = 0, x3 = 0\<rparr> (momentum p_rest) 1
          par_boundary True) = exp (- (1 / 2)) \<and>
   fst (unnormalized_smearing_factor \<lparr>x1 = 1, x2 = 0, x3 = 0\<rparr> (momentum p_rest) 1
          par_boundary True) \<noteq> 0 \<and>
   tv_sqr \<lparr>x1 = 4, x2 = 0, x3 = 0\<rparr> = r_cut_sqr par_unit \<and>
   tv_dot \<lparr>x1 = 4, x2 = 0, x3 = 0\<rparr> (tv_scale (threevec (momentum p_right)) (1 / 4)) \<noteq> 0 \<and>
   unnormalized_smearing_factor \<lparr>x1 = 4, x2 = 0, x3 = 0\<rparr> (momentum p_right) (1 / 4)
     par_unit True = (0, ThreeVector0)"
  using unnormalized_smearing_factor_boundary [of "\<lparr>x1 = 1, x2 = 0, x3 = 0\<rparr>"
      "momentum p_rest" 1 par_boundary True]
    unnormalized_smearing_factor_boundary [of "\<lparr>x1 = 4, x2 = 0, x3 = 0\<rparr>"
      "momentum p_right" "1 / 4" par_unit True]
  by (simp add: par_boundary_def par_unit_def p_rest_def p_right_def tv_sqr_def tv_dot_def
      tv_scale_def)


section \<open>The density-type selector\<close>

text \<open>
  C3: For every species and every density type \<open>density_factor\<close> is a total function of
  its two arguments that returns: 1 for a hadron and 0 otherwise under Hadron; the integer
  baryon number under Baryon, hence 0 for a species whose baryon number is 0; the relative
  isospin-3 of a baryon or nucleus and 0 otherwise under BaryonicIsospin; 1 for a pion
  and 0 otherwise under Pion; the isospin-3 of a hadron and 0 otherwise under
  Isospin3_tot; the charge under Charge; the strangeness under Strangeness; and 0 for the
  remaining tag.
\<close>

theorem density_factor_values:
  "density_factor t Hadron = (if is_hadron t then 1 else 0) \<and>
   density_factor t Baryon = real_of_int (baryon_number t) \<and>
   (baryon_number t = 0 \<longrightarrow> density_factor t Baryon = 0) \<and>
   density_factor t BaryonicIsospin =
     (if is_baryon t \<or> is_nucleus t then isospin3_rel t else 0) \<and>
   density_factor t Pion = (if is_pion t then 1 else 0) \<and>
   density_factor t Isospin3_tot = (if is_hadron t then isospin3 t else 0) \<and>
   density_factor t Charge = real_of_int (charge t) \<and>
   density_factor t Strangeness = real_of_int (strangeness t) \<and>
   density_factor t None' = 0"
  by simp

theorem density_factor_values_witness:
  "baryon_number type_pi0 = 0 \<and>
   density_factor type_pi0 Hadron = 1 \<and>
   density_factor type_pi0 Baryon = 0 \<and>
   density_factor type_pi0 BaryonicIsospin = 0 \<and>
   density_factor type_pi0 Pion = 1 \<and>
   density_factor type_pi0 Isospin3_tot = 0 \<and>
   density_factor type_pi0 Charge = 0 \<and>
   density_factor type_pi0 Strangeness = 0 \<and>
   density_factor type_pi0 None' = 0"
  using density_factor_values [of type_pi0] by (simp add: type_pi0_def)

section \<open>Opposite charges flying back to back\<close>

lemma fv_sqr_parity_scale:
  "fv_sqr (fv_scale (parity a) (- c)) = fv_sqr (fv_scale a c)"
  by (simp add: fv_sqr_def fv_scale_def parity_def tv_scale_def tv_sqr_def tv_dot_def)

lemma fv_abs_parity: "fv_abs (parity a) = fv_abs a"
  by (simp add: fv_abs_def fv_sqr_def parity_def tv_scale_def tv_sqr_def tv_dot_def)

lemma kernel_mirror:
  "fst (unnormalized_smearing_factor (tv_scale rr (- 1)) (parity mom) m_inv par cg) =
   fst (unnormalized_smearing_factor rr mom m_inv par cg)"
  by (simp add: unnormalized_smearing_factor_def Let_def parity_def fv_scale_def tv_scale_def
      tv_sqr_def tv_dot_def)

lemma contribution_mirror:
  assumes "density_factor (ptype p2) dt = - density_factor (ptype p1) dt"
    and "momentum p2 = parity (momentum p1)"
    and "tv_sub (threevec (position p2)) r = tv_scale (tv_sub (threevec (position p1)) r) (- 1)"
  shows "\<exists>c. contribution r par dt cg sm p1 = fv_scale (momentum p1) c \<and>
             contribution r par dt cg sm p2 = fv_scale (parity (momentum p1)) (- c)"
proof (cases sm)
  case True
  show ?thesis
    apply (rule exI [of _ "density_factor (ptype p1) dt / x0 (momentum p1) *
       fst (unnormalized_smearing_factor (tv_sub (threevec (position p1)) r) (momentum p1)
              (1 / fv_abs (momentum p1)) par cg)"])
    using assms True
    by (simp add: contribution_def Let_def fv_scale_scale kernel_mirror fv_abs_parity)
      (simp add: parity_def)
next
  case False
  show ?thesis
    apply (rule exI [of _ "density_factor (ptype p1) dt / x0 (momentum p1)"])
    using assms False
    by (simp add: contribution_def Let_def) (simp add: parity_def)
qed

lemma mirror_pair:
  assumes "0 < density_factor (ptype p1) dt"
    and "density_factor (ptype p2) dt = - density_factor (ptype p1) dt"
    and "momentum p2 = parity (momentum p1)"
    and "tv_sub (threevec (position p2)) r = tv_scale (tv_sub (threevec (position p1)) r) (- 1)"
  shows "fst (current_eckart e r [p1, p2] par dt cg sm) = 0 \<and>
         x0 (fst (snd (current_eckart e r [p1, p2] par dt cg sm))) = 0 \<and>
         (counted e dt p1 \<longrightarrow>
            threevec (fst (snd (current_eckart e r [p1, p2] par dt cg sm))) =
              tv_scale (threevec (contribution r par dt cg sm p1)) (2 * norm_factor_sf par))"
proof -
  obtain c where c1: "contribution r par dt cg sm p1 = fv_scale (momentum p1) c"
    and c2: "contribution r par dt cg sm p2 = fv_scale (parity (momentum p1)) (- c)"
    using contribution_mirror [OF assms(2-4)] by blast
  have cnt: "counted e dt p2 = counted e dt p1"
    using assms(2,3) by (simp add: counted_def fv_abs_parity)
  have neg: "\<not> 0 < density_factor (ptype p2) dt"
    using assms(1,2) by simp
  have ab: "fv_abs (fv_scale (parity (momentum p1)) (- c)) = fv_abs (fv_scale (momentum p1) c)"
    by (simp add: fv_abs_def fv_sqr_parity_scale)
  have t: "x0 (fv_scale (momentum p1) c) + x0 (fv_scale (parity (momentum p1)) (- c)) = 0"
    by (simp add: fv_scale_def parity_def)
  show ?thesis
    using assms(1) neg cnt ab t
    by (simp add: current_eckart_def current_eckart_impl_def Let_def jmu_pos_loop jmu_neg_loop
        accumulator0_def fv_add_0 c1 c2 fv_abs_0)
      (simp add: fv_add_def fv_scale_def FourVector0_def parity_def tv_scale_def tv_add_def
        ThreeVector0_def)
qed

lemma sample_pair:
  "0 < density_factor (ptype p_right) Charge"
  "density_factor (ptype p_left) Charge = - density_factor (ptype p_right) Charge"
  "momentum p_left = parity (momentum p_right)"
  "tv_sub (threevec (position p_left)) ThreeVector0 =
     tv_scale (tv_sub (threevec (position p_right)) ThreeVector0) (- 1)"
  by (simp_all add: p_right_def p_left_def type_plus_def type_minus_def parity_def
      tv_scale_def tv_sub_def ThreeVector0_def)

lemma sample_counted: "counted (1 / 1000000) Charge p_right"
  by (simp add: counted_def p_right_def type_plus_def fv_abs_def fv_sqr_def tv_sqr_def
      tv_dot_def sqrt_16)

text \<open>
  For the two sample particles, of charges 1 and - 1 and of opposite momenta, at mirrored
  positions about the point, the Eckart density of the charge is not strictly positive,
  with and without smearing.
\<close>

theorem current_eckart_opposite_charges_counterexample:
  "\<not> 0 < fst (current_eckart (1 / 1000000) ThreeVector0 [p_right, p_left] par_unit Charge
               False True) \<and>
   \<not> 0 < fst (current_eckart (1 / 1000000) ThreeVector0 [p_right, p_left] par_unit Charge
               False False)"
  using mirror_pair [OF sample_pair, of "1 / 1000000" par_unit False True]
    mirror_pair [OF sample_pair, of "1 / 1000000" par_unit False False]
  by simp

text \<open>
  C4: For two particles of equal and opposite weights, the first positive, of spatially
  reflected momenta and at positions mirrored about the point, the Eckart density returned by
  \<open>current_eckart\<close> is exactly zero, the invariant norms of the positive and of the
  negative sum being equal. The time component of the returned four-current cancels and,
  when the particles are not skipped, its spatial part is twice that of the contribution
  of the first particle, times the normalisation factor.
\<close>

theorem current_eckart_mirror_pair:
  assumes "0 < density_factor (ptype p1) dt"
    and "density_factor (ptype p2) dt = - density_factor (ptype p1) dt"
    and "momentum p2 = parity (momentum p1)"
    and "tv_sub (threevec (position p2)) r = tv_scale (tv_sub (threevec (position p1)) r) (- 1)"
  shows "fst (current_eckart e r [p1, p2] par dt cg sm) = 0 \<and>
         x0 (fst (snd (current_eckart e r [p1, p2] par dt cg sm))) = 0 \<and>
         (counted e dt p1 \<longrightarrow>
            threevec (fst (snd (current_eckart e r [p1, p2] par dt cg sm))) =
              tv_scale (threevec (contribution r par dt cg sm p1)) (2 * norm_factor_sf par))"
  using assms by (rule mirror_pair)

theorem current_eckart_mirror_pair_witness:
  "0 < density_factor (ptype p_right) Charge \<and>
   density_factor (ptype p_left) Charge = - density_factor (ptype p_right) Charge \<and>
   momentum p_left = parity (momentum p_right) \<and>
   tv_sub (threevec (position p_left)) ThreeVector0 =
     tv_scale (tv_sub (threevec (position p_right)) ThreeVector0) (- 1) \<and>
   counted (1 / 1000000) Charge p_right \<and>
   fst (current_eckart (1 / 1000000) ThreeVector0 [p_right, p_left] par_unit Charge False
          False) = 0 \<and>
   fst (snd (current_eckart (1 / 1000000) ThreeVector0 [p_right, p_left] par_unit Charge
               False False)) =
     \<lparr>x0 = 0, threevec = \<lparr>x1 = 6 / 5, x2 = 0, x3 = 0\<rparr>\<rparr>"
proof -
  have c: "contribution ThreeVector0 par_unit Charge False False p_right =
             \<lparr>x0 = 1, threevec = \<lparr>x1 = 3 / 5, x2 = 0, x3 = 0\<rparr>\<rparr>"
    by (simp add: contribution_def p_right_def type_plus_def fv_scale_def tv_scale_def)
  have n: "norm_factor_sf par_unit = 1"
    by (simp add: par_unit_def)
  have "fst (current_eckart (1 / 1000000) ThreeVector0 [p_right, p_left] par_unit Charge
               False False) = 0 \<and>
        x0 (fst (snd (current_eckart (1 / 1000000) ThreeVector0 [p_right, p_left] par_unit
                        Charge False False))) = 0 \<and>
        threevec (fst (snd (current_eckart (1 / 1000000) ThreeVector0 [p_right, p_left]
                              par_unit Charge False False))) =
          \<lparr>x1 = 6 / 5, x2 = 0, x3 = 0\<rparr>"
    using current_eckart_mirror_pair [OF sample_pair, of "1 / 1000000" par_unit False False]
      sample_counted
    by (simp add: c n tv_scale_def)
  then show ?thesis
    using sample_pair sample_counted by simp
qed

section \<open>Divisors of the loop\<close>

lemma physical_mass_le_energy:
  assumes "physical mom"
  shows "fv_abs mom \<le> x0 mom"
proof -
  have "0 \<le> tv_sqr (threevec mom)"
    by (simp add: tv_sqr_def tv_dot_def)
  then have "fv_sqr mom \<le> (x0 mom)\<^sup>2"
    by (simp add: fv_sqr_def power2_eq_square)
  then have "sqrt (fv_sqr mom) \<le> sqrt ((x0 mom)\<^sup>2)"
    by (rule real_sqrt_le_mono)
  with assms show ?thesis
    by (simp add: fv_abs_def physical_def)
qed

lemma particle_divisors:
  assumes "physical (momentum p)"
  shows "\<forall>d \<in> set (snd (eckart_particle e r par dt cg sm acc p)). e \<le> \<bar>d\<bar>"
proof -
  have "fv_abs (momentum p) \<le> x0 (momentum p)"
    using assms by (rule physical_mass_le_energy)
  then show ?thesis
    by (auto simp add: eckart_particle_def Let_def)
qed

lemma particle_skipped:
  "\<not> counted e dt p \<Longrightarrow> eckart_particle e r par dt cg sm acc p = (acc, [])"
  by (auto simp add: eckart_particle_def counted_def Let_def)

text \<open>
  C6: When every particle of the list has a physical four-momentum, every division the
  loop of \<open>current_eckart\<close> executes, by the invariant mass, by the energy and by the
  weight of the particle, has a divisor of magnitude at least \<open>really_small\<close>, which is
  not zero when \<open>really_small\<close> is positive; a particle whose weight or mass is below
  \<open>really_small\<close> is skipped before any division and leaves the sums as they are.
\<close>

theorem loop_divisors_bounded:
  assumes "\<forall>p \<in> set plist. physical (momentum p)"
  shows "(\<forall>d \<in> set (loop_divisors e r par dt cg sm accumulator0 plist).
            e \<le> \<bar>d\<bar> \<and> (0 < e \<longrightarrow> d \<noteq> 0)) \<and>
         (\<forall>p \<in> set plist. \<forall>a. \<not> counted e dt p \<longrightarrow>
            eckart_particle e r par dt cg sm a p = (a, []))"
proof
  have "\<forall>d \<in> set (loop_divisors e r par dt cg sm acc plist). e \<le> \<bar>d\<bar> \<and> (0 < e \<longrightarrow> d \<noteq> 0)"
    for acc
    using assms
  proof (induction plist arbitrary: acc)
    case Nil
    then show ?case by simp
  next
    case (Cons p plist)
    have "\<forall>d \<in> set (snd (eckart_particle e r par dt cg sm acc p)). e \<le> \<bar>d\<bar>"
      by (rule particle_divisors) (use Cons.prems in simp)
    moreover have "\<forall>d \<in> set (loop_divisors e r par dt cg sm
                       (fst (eckart_particle e r par dt cg sm acc p)) plist).
                     e \<le> \<bar>d\<bar> \<and> (0 < e \<longrightarrow> d \<noteq> 0)"
      using Cons.IH Cons.prems by simp
    ultimately show ?case by fastforce
  qed
  then show "\<forall>d \<in> set (loop_divisors e r par dt cg sm accumulator0 plist).
               e \<le> \<bar>d\<bar> \<and> (0 < e \<longrightarrow> d \<noteq> 0)" .
  show "\<forall>p \<in> set plist. \<forall>a. \<not> counted e dt p \<longrightarrow>
          eckart_particle e r par dt cg sm a p = (a, [])"
    by (simp add: particle_skipped)
qed

theorem loop_divisors_bounded_witness:
  "physical (momentum p_right) \<and>
   physical (momentum (p_rest\<lparr>ptype := type_pi0\<rparr>)) \<and>
   (0::real) < 1 / 1000000 \<and>
   \<not> counted (1 / 1000000) Charge (p_rest\<lparr>ptype := type_pi0\<rparr>) \<and>
   loop_divisors (1 / 1000000) ThreeVector0 par_unit Charge True True accumulator0
     [p_right, p_rest\<lparr>ptype := type_pi0\<rparr>] = [4, 5, 1, 1, 1] \<and>
   list_all (\<lambda>d. 1 / 1000000 \<le> \<bar>d\<bar> \<and> d \<noteq> 0)
     (loop_divisors (1 / 1000000) ThreeVector0 par_unit Charge True True accumulator0
        [p_right, p_rest\<lparr>ptype := type_pi0\<rparr>]) \<and>
   eckart_particle (1 / 1000000) ThreeVector0 par_unit Charge True True accumulator0
     (p_rest\<lparr>ptype := type_pi0\<rparr>) = (accumulator0, [])"
proof -
  have p1: "physical (momentum p_right)"
    by (simp add: physical_def p_right_def fv_sqr_def tv_sqr_def tv_dot_def)
  have p2: "physical (momentum (p_rest\<lparr>ptype := type_pi0\<rparr>))"
    by (simp add: physical_def p_rest_def fv_sqr_def tv_sqr_def tv_dot_def)
  have ph: "\<forall>p \<in> set [p_right, p_rest\<lparr>ptype := type_pi0\<rparr>]. physical (momentum p)"
    using p1 p2 by simp
  have nc: "\<not> counted (1 / 1000000) Charge (p_rest\<lparr>ptype := type_pi0\<rparr>)"
    by (simp add: counted_def type_pi0_def)
  have d1: "snd (eckart_particle (1 / 1000000) ThreeVector0 par_unit Charge True True
                   accumulator0 p_right) = [4, 5, 1, 1, 1]"
    by (simp add: eckart_particle_def Let_def p_right_def type_plus_def fv_abs_def fv_sqr_def
        tv_sqr_def tv_dot_def sqrt_16)
  have d2: "snd (eckart_particle (1 / 1000000) ThreeVector0 par_unit Charge True True a
                   (p_rest\<lparr>ptype := type_pi0\<rparr>)) = []" for a
    by (simp add: eckart_particle_def Let_def type_pi0_def)
  have ld: "loop_divisors (1 / 1000000) ThreeVector0 par_unit Charge True True accumulator0
              [p_right, p_rest\<lparr>ptype := type_pi0\<rparr>] = [4, 5, 1, 1, 1]"
    by (simp add: d1 d2)
  have b: "(\<forall>d \<in> set (loop_divisors (1 / 1000000) ThreeVector0 par_unit Charge True True
                         accumulator0 [p_right, p_rest\<lparr>ptype := type_pi0\<rparr>]).
              1 / 1000000 \<le> \<bar>d\<bar> \<and> (0 < (1 / 1000000 :: real) \<longrightarrow> d \<noteq> 0)) \<and>
           (\<forall>p \<in> set [p_right, p_rest\<lparr>ptype := type_pi0\<rparr>]. \<forall>a.
              \<not> counted (1 / 1000000) Charge p \<longrightarrow>
              eckart_particle (1 / 1000000) ThreeVector0 par_unit Charge True True a p =
                (a, []))"
    by (rule loop_divisors_bounded [OF ph])
  have la: "list_all (\<lambda>d. 1 / 1000000 \<le> \<bar>d\<bar> \<and> d \<noteq> 0)
              (loop_divisors (1 / 1000000) ThreeVector0 par_unit Charge True True accumulator0
                 [p_right, p_rest\<lparr>ptype := type_pi0\<rparr>])"
    using b by (simp add: list_all_iff)
  have sk: "eckart_particle (1 / 1000000) ThreeVector0 par_unit Charge True True accumulator0
              (p_rest\<lparr>ptype := type_pi0\<rparr>) = (accumulator0, [])"
    using b nc by simp
  show ?thesis
    using p1 p2 nc ld la sk by simp
qed

section \<open>Degenerate inputs\<close>

text \<open>
  C7: For the empty particle list \<open>current_eckart\<close> returns the density 0, the zero
  four-current and the zero vector for the gradient of the density, for the time
  derivative of the current and for its curl, for every point, parameters, density type
  and flags; and for any particle list the three derivative outputs are the zero vector
  when gradients are not requested. The function has no failing path.
\<close>

theorem current_eckart_zero_outputs:
  "current_eckart e r [] par dt cg sm =
     (0, FourVector0, ThreeVector0, ThreeVector0, ThreeVector0) \<and>
   snd (snd (current_eckart e r plist par dt False sm)) =
     (ThreeVector0, ThreeVector0, ThreeVector0)"
proof
  show "current_eckart e r [] par dt cg sm =
     (0, FourVector0, ThreeVector0, ThreeVector0, ThreeVector0)"
    by (simp add: current_eckart_def current_eckart_impl_def eckart_loop_Nil Let_def
        accumulator0_def fv_abs_0 fv_add_def fv_scale_def tv_add_def tv_scale_def
        FourVector0_def ThreeVector0_def tv_set_nth_def tv_nth_def)
  show "snd (snd (current_eckart e r plist par dt False sm)) =
     (ThreeVector0, ThreeVector0, ThreeVector0)"
    by (simp add: current_eckart_def current_eckart_impl_def Let_def)
qed

text \<open>
  C10: Without smearing and without gradients the result of \<open>current_eckart\<close> does not
  depend on the point nor on the cutoff and the width of the kernel: for every particle
  list and density type, two calls at any two points and with any two density parameters
  of the same normalisation factor return the same five outputs.
\<close>

theorem current_eckart_unsmeared_independent:
  assumes "norm_factor_sf par1 = norm_factor_sf par2"
  shows "current_eckart e r1 plist par1 dt False False =
         current_eckart e r2 plist par2 dt False False"
proof -
  have "contribution r1 par1 dt False False = contribution r2 par2 dt False False"
    by (rule ext) (simp add: contribution_def)
  then show ?thesis
    using assms
    by (simp add: current_eckart_def current_eckart_impl_def Let_def jmu_pos_loop jmu_neg_loop)
qed

theorem current_eckart_unsmeared_independent_witness:
  "norm_factor_sf par_unit = norm_factor_sf par_wide \<and>
   r_cut_sqr par_unit \<noteq> r_cut_sqr par_wide \<and>
   two_sig_sqr_inv par_unit \<noteq> two_sig_sqr_inv par_wide \<and>
   current_eckart (1 / 1000000) ThreeVector0 [p_right, p_rest] par_unit Baryon False False =
   current_eckart (1 / 1000000) \<lparr>x1 = 50, x2 = 0, x3 = 7\<rparr> [p_right, p_rest] par_wide Baryon
     False False"
proof -
  have n: "norm_factor_sf par_unit = norm_factor_sf par_wide"
    by (simp add: par_unit_def par_wide_def)
  show ?thesis
    using current_eckart_unsmeared_independent [OF n, of "1 / 1000000" ThreeVector0
        "[p_right, p_rest]" Baryon "\<lparr>x1 = 50, x2 = 0, x3 = 7\<rparr>"]
    by (simp add: par_unit_def par_wide_def)
qed

section \<open>The idle lattice update\<close>

text \<open>
  C8: Whatever the other arguments, \<open>update_lattice\<close> called with a null primary lattice,
  or with a lattice whose update-trigger tag differs from the requested one, returns
  without a fault and leaves the primary lattice, the two auxiliary four-current lattices
  and the four-gradient lattice as they were.
\<close>

theorem update_lattice_noop:
  assumes "lat s = Option.None \<or> (\<exists>l. lat s = Some l \<and> when_update l \<noteq> update)"
  shows "update_lattice ul6 cfg s update dt par ens time_step cg = Inr s"
  using assms by (auto simp add: update_lattice_def)

theorem update_lattice_noop_witness:
  "update_lattice (\<lambda>l u d q (e::unit) g. l\<lparr>nodes := []\<rparr>) (\<lambda>n old t g. g\<lparr>nodes := []\<rparr>)
     \<lparr>lat = Option.None, old_jmu = Option.None, new_jmu = Option.None,
      four_grad_lattice = Option.None\<rparr>
     True Baryon par_wide () 1 True =
   Inr \<lparr>lat = Option.None, old_jmu = Option.None, new_jmu = Option.None,
        four_grad_lattice = Option.None\<rparr> \<and>
   when_update \<lparr>when_update = False, n_cells = (1, 1, 1),
                nodes = [\<lparr>jmu_net = FourVector0, djmu_dxnu = []\<rparr>]\<rparr> \<noteq> True \<and>
   update_lattice (\<lambda>l u d q (e::unit) g. l\<lparr>nodes := []\<rparr>) (\<lambda>n old t g. g\<lparr>nodes := []\<rparr>)
     \<lparr>lat = Some \<lparr>when_update = False, n_cells = (1, 1, 1),
                  nodes = [\<lparr>jmu_net = FourVector0, djmu_dxnu = []\<rparr>]\<rparr>,
      old_jmu = Some \<lparr>when_update = False, n_cells = (1, 1, 1), nodes = [FourVector0]\<rparr>,
      new_jmu = Some \<lparr>when_update = False, n_cells = (1, 1, 1), nodes = [FourVector0]\<rparr>,
      four_grad_lattice = Some \<lparr>when_update = False, n_cells = (1, 1, 1), nodes = [[]]\<rparr>\<rparr>
     True Baryon par_wide () 1 True =
   Inr \<lparr>lat = Some \<lparr>when_update = False, n_cells = (1, 1, 1),
                      nodes = [\<lparr>jmu_net = FourVector0, djmu_dxnu = []\<rparr>]\<rparr>,
        old_jmu = Some \<lparr>when_update = False, n_cells = (1, 1, 1), nodes = [FourVector0]\<rparr>,
        new_jmu = Some \<lparr>when_update = False, n_cells = (1, 1, 1), nodes = [FourVector0]\<rparr>,
        four_grad_lattice = Some \<lparr>when_update = False, n_cells = (1, 1, 1), nodes = [[]]\<rparr>\<rparr>"
  using update_lattice_noop [of "\<lparr>lat = Option.None, old_jmu = Option.None,
        new_jmu = Option.None, four_grad_lattice = Option.None\<rparr>" True
        "\<lambda>l u d q (e::unit) g. l\<lparr>nodes := []\<rparr>" "\<lambda>n old t g. g\<lparr>nodes := []\<rparr>"
        Baryon par_wide "()" 1 True]
    update_lattice_noop [of
        "\<lparr>lat = Some \<lparr>when_update = False, n_cells = (1, 1, 1),
                       nodes = [\<lparr>jmu_net = FourVector0, djmu_dxnu = []\<rparr>]\<rparr>,
          old_jmu = Some \<lparr>when_update = False, n_cells = (1, 1, 1), nodes = [FourVector0]\<rparr>,
          new_jmu = Some \<lparr>when_update = False, n_cells = (1, 1, 1), nodes = [FourVector0]\<rparr>,
          four_grad_lattice =
            Some \<lparr>when_update = False, n_cells = (1, 1, 1), nodes = [[]]\<rparr>\<rparr>" True
        "\<lambda>l u d q (e::unit) g. l\<lparr>nodes := []\<rparr>" "\<lambda>n old t g. g\<lparr>nodes := []\<rparr>"
        Baryon par_wide "()" 1 True]
  by simp

section \<open>Labels of the density types\<close>

lemma operator_out_labelled:
  "operator_out \<lparr>written = [], failbit = False\<rparr> Hadron =
     \<lparr>written = ''hadron density'', failbit = False\<rparr>"
  "operator_out \<lparr>written = [], failbit = False\<rparr> Baryon =
     \<lparr>written = ''baryon density'', failbit = False\<rparr>"
  "operator_out \<lparr>written = [], failbit = False\<rparr> BaryonicIsospin =
     \<lparr>written = ''baryonic isospin density'', failbit = False\<rparr>"
  "operator_out \<lparr>written = [], failbit = False\<rparr> Pion =
     \<lparr>written = ''pion density'', failbit = False\<rparr>"
  "operator_out \<lparr>written = [], failbit = False\<rparr> Isospin3_tot =
     \<lparr>written = ''total isospin3 density'', failbit = False\<rparr>"
  "operator_out \<lparr>written = [], failbit = False\<rparr> None' =
     \<lparr>written = ''none'', failbit = False\<rparr>"
  by (simp_all add: insert_text_def)

text \<open>
  C9: Every value of the enumeration DensityType should have a label that the output
  operator writes, leaving the stream good. The operator has no case for Charge and for
  Strangeness: streamed into an empty good stream, either leaves the text empty and sets
  the failbit.
\<close>

theorem operator_out_Charge_Strangeness:
  "operator_out \<lparr>written = [], failbit = False\<rparr> Charge =
     \<lparr>written = [], failbit = True\<rparr> \<and>
   operator_out \<lparr>written = [], failbit = False\<rparr> Strangeness =
     \<lparr>written = [], failbit = True\<rparr>"
  by (simp add: setstate_failbit_def)


end
